theory Spec2Isabelle
  imports Complex_Main "HOL-Library.Multiset"
begin

section \<open>Numbers\<close>

text \<open>
  The TypeScript type \<open>number\<close> is modelled by \<^typ>\<open>real\<close>: every arithmetic operation
  is the exact one, so the rounding of IEEE-754 doubles, their overflow and underflow and
  the values NaN and Infinity are outside the embedding of the functions. \<open>Math.exp\<close> is
  \<^const>\<open>exp\<close> and \<open>Math.log\<close> is \<^const>\<open>ln\<close>. The comparisons of the source are the
  comparisons of the reals. Where a property relates two results that the source rounds
  separately (the two products of the leaf area), those operations are modelled on
  binary64 as well, in the section on the two products below.
\<close>

definition Math_pow :: "real \<Rightarrow> real \<Rightarrow> real" where
  \<comment> \<open>\<open>Math.pow(x, y)\<close>. Both calls in the source are reached with a positive base only
     (behind the guard \<open>dbh <= 0 || height <= 0\<close>), where the power is \<open>exp (y * ln x)\<close>.\<close>
  "Math_pow x y = x powr y"

section \<open>services/carbonCalculator.ts\<close>

record CarbonMetrics =
  biomass :: real
  carbonStored :: real
  co2Sequestrated :: real

definition WOOD_DENSITY :: real where
  "WOOD_DENSITY = 0.6"

definition CARBON_CONVERSION_FACTOR :: real where
  "CARBON_CONVERSION_FACTOR = 0.47"

definition CO2_CONVERSION_FACTOR :: real where
  "CO2_CONVERSION_FACTOR = 3.67"

definition calculateCarbonMetrics :: "real \<Rightarrow> real \<Rightarrow> CarbonMetrics" where
  "calculateCarbonMetrics dbh height =
     (if dbh \<le> 0 \<or> height \<le> 0
      then \<lparr>biomass = 0, carbonStored = 0, co2Sequestrated = 0\<rparr>
      else
        let biomass = 0.0673 * Math_pow (WOOD_DENSITY * Math_pow dbh 2 * height) 0.976;
            carbonStored = biomass * CARBON_CONVERSION_FACTOR;
            co2Sequestrated = carbonStored * CO2_CONVERSION_FACTOR
        in \<lparr>biomass = biomass, carbonStored = carbonStored,
             co2Sequestrated = co2Sequestrated\<rparr>)"

section \<open>services/ecosystemServiceCalculator.ts\<close>

text \<open>
  The type \<open>ProximityToBuilding\<close> is declared in \<open>types.ts\<close>; its three values are the
  ones the form's select offers (\<open>'None'\<close>, \<open>'Near'\<close>, \<open>'Far'\<close>). \<open>NoneP\<close> stands for
  \<open>'None'\<close>.
\<close>

datatype ProximityToBuilding = NoneP | Near | Far

record MonetaryValue =
  total :: real
  carbon :: real
  stormwater :: real
  airQuality :: real
  energy :: real

record EcosystemServices =
  stormwaterInterceptedLiters :: real
  airPollutionRemovedGrams :: real
  energySavingsIDR :: real
  annualMonetaryValue :: MonetaryValue

definition USD_TO_IDR_RATE :: real where
  "USD_TO_IDR_RATE = 16000"

definition SOCIAL_COST_OF_CARBON_PER_KG_CO2_IDR :: real where
  "SOCIAL_COST_OF_CARBON_PER_KG_CO2_IDR = 0.05 * USD_TO_IDR_RATE"

definition STORMWATER_MANAGEMENT_COST_PER_LITER_IDR :: real where
  "STORMWATER_MANAGEMENT_COST_PER_LITER_IDR = 0.002 * USD_TO_IDR_RATE"

definition AIR_POLLUTION_HEALTH_SAVINGS_PER_GRAM_IDR :: real where
  "AIR_POLLUTION_HEALTH_SAVINGS_PER_GRAM_IDR = 0.08 * USD_TO_IDR_RATE"

definition LEAF_AREA_PARAM_A :: real where
  "LEAF_AREA_PARAM_A = - 2.2"

definition LEAF_AREA_PARAM_B :: real where
  "LEAF_AREA_PARAM_B = 1.8"

definition RAINFALL_INTERCEPTION_LITERS_PER_M2_LEAF_AREA :: real where
  "RAINFALL_INTERCEPTION_LITERS_PER_M2_LEAF_AREA = 180"

definition POLLUTION_REMOVAL_GRAMS_PER_M2_LEAF_AREA :: real where
  "POLLUTION_REMOVAL_GRAMS_PER_M2_LEAF_AREA = 1.5"

definition calculateEcosystemServices :: "real \<Rightarrow> ProximityToBuilding \<Rightarrow> EcosystemServices" where
  "calculateEcosystemServices dbh proximityToBuilding =
     (if dbh \<le> 0
      then \<lparr>stormwaterInterceptedLiters = 0, airPollutionRemovedGrams = 0,
             energySavingsIDR = 0,
             annualMonetaryValue =
               \<lparr>total = 0, carbon = 0, stormwater = 0, airQuality = 0, energy = 0\<rparr>\<rparr>
      else
        let leafArea = exp (LEAF_AREA_PARAM_A + LEAF_AREA_PARAM_B * ln dbh);
            stormwaterInterceptedLiters =
              leafArea * RAINFALL_INTERCEPTION_LITERS_PER_M2_LEAF_AREA;
            airPollutionRemovedGrams = leafArea * POLLUTION_REMOVAL_GRAMS_PER_M2_LEAF_AREA;
            energySavingsIDR =
              (if proximityToBuilding = Near
               then (let energySavingsUSD = 10 + (dbh * 0.25)
                     in energySavingsUSD * USD_TO_IDR_RATE)
               else 0);
            tempCarbonMetrics = calculateCarbonMetrics dbh (dbh * 0.5);
            valueFromCarbon =
              co2Sequestrated tempCarbonMetrics * SOCIAL_COST_OF_CARBON_PER_KG_CO2_IDR;
            valueFromStormwater =
              stormwaterInterceptedLiters * STORMWATER_MANAGEMENT_COST_PER_LITER_IDR;
            valueFromAirQuality =
              airPollutionRemovedGrams * AIR_POLLUTION_HEALTH_SAVINGS_PER_GRAM_IDR;
            valueFromEnergy = energySavingsIDR;
            totalValue =
              valueFromCarbon + valueFromStormwater + valueFromAirQuality + valueFromEnergy
        in \<lparr>stormwaterInterceptedLiters = stormwaterInterceptedLiters,
             airPollutionRemovedGrams = airPollutionRemovedGrams,
             energySavingsIDR = energySavingsIDR,
             annualMonetaryValue =
               \<lparr>total = totalValue, carbon = valueFromCarbon,
                 stormwater = valueFromStormwater, airQuality = valueFromAirQuality,
                 energy = valueFromEnergy\<rparr>\<rparr>)"

section \<open>The two products of the leaf area on binary64\<close>

text \<open>
  Lines 47 and 48 of \<open>ecosystemServiceCalculator.ts\<close> multiply the same double
  \<open>leafArea\<close> by 180 and by 1.5, and each product is rounded to a double on its own.
  \<open>binary64\<close> is that rounding: to the nearest number with 53 significant bits, a tie
  to the even one, with the fixed spacing \<open>2\<^bsup>-1074\<^esup>\<close> below \<open>2\<^bsup>-1022\<^esup>\<close>. A result of
  magnitude \<open>2\<^bsup>1024\<^esup>\<close> or more is \<open>Infinity\<close> in the source and is outside this model.
  The leaf area is the double that \<open>Math.exp\<close> returned at line 44; the standard leaves
  \<open>Math.exp\<close> and \<open>Math.log\<close> to the engine's approximation, so that double is an
  argument here. The constants 180 and 1.5 are doubles.
\<close>

definition round_half_even :: "real \<Rightarrow> int" where
  "round_half_even x =
     (let n = \<lfloor>x\<rfloor>; r = x - of_int n
      in if r < 1 / 2 then n else if 1 / 2 < r then n + 1 else if even n then n else n + 1)"

definition binary64 :: "real \<Rightarrow> real" where
  "binary64 x =
     (if x = 0 then 0
      else let e = max \<lfloor>log 2 \<bar>x\<bar>\<rfloor> (- 1022) - 52
           in of_int (round_half_even (x / 2 powi e)) * 2 powi e)"

definition stormwaterInterceptedLiters64 :: "real \<Rightarrow> real \<Rightarrow> real" where
  \<comment> \<open>The field \<open>stormwaterInterceptedLiters\<close> as the source computes it on doubles: 0 in
     the branch \<open>dbh <= 0\<close>, else the rounded product of line 47.\<close>
  "stormwaterInterceptedLiters64 dbh leafArea =
     (if dbh \<le> 0 then 0
      else binary64 (leafArea * RAINFALL_INTERCEPTION_LITERS_PER_M2_LEAF_AREA))"

definition airPollutionRemovedGrams64 :: "real \<Rightarrow> real \<Rightarrow> real" where
  \<comment> \<open>The field \<open>airPollutionRemovedGrams\<close> likewise, with the rounded product of
     line 48.\<close>
  "airPollutionRemovedGrams64 dbh leafArea =
     (if dbh \<le> 0 then 0
      else binary64 (leafArea * POLLUTION_REMOVAL_GRAMS_PER_M2_LEAF_AREA))"

definition leafArea_at_dbh_1 :: real where
  \<comment> \<open>The double 0.11080315836233387 (\<open>0x1.c5d988575b10ep-4\<close>), the leaf area at
     \<open>dbh = 1\<close>: \<open>Math.log(1)\<close> is 0 and \<open>Math.exp(-2.2)\<close> is this double.\<close>
  "leafArea_at_dbh_1 = 3992104501696647 / 2 ^ 55"

section \<open>The tree record and App.tsx\<close>

text \<open>
  Modelled from the spec: the enum \<open>TreeCondition\<close> of \<open>types.ts\<close> (a file that is not
  among the sources), with the three members the sources name, \<open>TreeCondition.HEALTHY\<close>,
  \<open>TreeCondition.DAMAGED\<close> and \<open>TreeCondition.DEAD\<close>, which the spec renders as
  \<open>Healthy\<close>, \<open>Damaged\<close> and \<open>Dead\<close>.
\<close>

datatype TreeCondition = HEALTHY | DAMAGED | DEAD

text \<open>
  \<open>NewTreeData\<close> is \<open>Omit<TreeData, 'id' | 'carbon' | 'ecosystemServices'>\<close>, the object
  that the form's \<open>handleSubmit\<close> builds; \<open>TreeData\<close> adds the three omitted fields. The
  field \<open>id\<close> is \<open>tree_id\<close> here, the field \<open>carbon\<close> is \<open>carbon_metrics\<close> and the
  field \<open>notes\<close> is \<open>tree_notes\<close>.
\<close>

record NewTreeData =
  species :: string
  dbh :: real
  height :: real
  condition :: TreeCondition
  proximityToBuilding :: ProximityToBuilding
  tree_notes :: string
  photo :: string
  latitude :: real
  longitude :: real
  inventoryDate :: string

record TreeData = NewTreeData +
  tree_id :: int
  carbon_metrics :: CarbonMetrics
  ecosystemServices :: EcosystemServices

datatype AppView = View_form | View_map | View_dashboard

text \<open>
  The part of the component state of \<open>App\<close> that \<open>handleAddTree\<close> writes: the tree
  collection and the current view.
\<close>

record AppState =
  trees :: "TreeData list"
  view :: AppView

text \<open>
  \<open>handleAddTree\<close> reads the clock: \<open>id: Date.now()\<close>. The reading (milliseconds since
  the epoch, an integer) is the first argument of the model. \<open>setTrees\<close> prepends the
  new record, \<open>setView\<close> switches to the dashboard.
\<close>

definition handleAddTree :: "int \<Rightarrow> NewTreeData \<Rightarrow> AppState \<Rightarrow> AppState" where
  "handleAddTree now newTreeData st =
     (let carbonMetrics = calculateCarbonMetrics (dbh newTreeData) (height newTreeData);
          ecosystemServices =
            calculateEcosystemServices (dbh newTreeData) (proximityToBuilding newTreeData);
          newTree =
            \<lparr>species = species newTreeData, dbh = dbh newTreeData,
             height = height newTreeData, condition = condition newTreeData,
             proximityToBuilding = proximityToBuilding newTreeData,
             tree_notes = tree_notes newTreeData, photo = photo newTreeData,
             latitude = latitude newTreeData, longitude = longitude newTreeData,
             inventoryDate = inventoryDate newTreeData,
             tree_id = now, carbon_metrics = carbonMetrics,
             ecosystemServices = ecosystemServices\<rparr>
      in st\<lparr>trees := newTree # trees st, view := View_dashboard\<rparr>)"

text \<open>
  A session is a sequence of calls of \<open>handleAddTree\<close>, each with the clock reading at
  the call and the submitted form data, applied in order to the state.
\<close>

fun session :: "(int \<times> NewTreeData) list \<Rightarrow> AppState \<Rightarrow> AppState" where
  "session [] st = st"
| "session ((now, newTreeData) # calls) st = session calls (handleAddTree now newTreeData st)"

section \<open>JavaScript objects used as dictionaries\<close>

text \<open>
  The species counter of the dashboard is a plain object \<open>{}\<close> indexed by the species
  string. The values that can appear in it are numbers (counts), and, once an inherited
  property of \<open>Object.prototype\<close> has been read, the string that \<open>+\<close> makes of an
  object. \<open>Str\<close> stands for such a string (its characters depend on the engine's text
  for a native function and it never converts to a number), \<open>Obj\<close> for an inherited
  function or object.
\<close>

datatype jsvalue = Undefined | NaN | Num nat | Str | Obj

text \<open>The own properties of an object, in the order of their creation.\<close>

type_synonym js_object = "(string \<times> jsvalue) list"

definition Object_prototype_methods :: "string list" where
  "Object_prototype_methods =
     [''constructor'', ''__defineGetter__'', ''__defineSetter__'', ''hasOwnProperty'',
      ''__lookupGetter__'', ''__lookupSetter__'', ''isPrototypeOf'',
      ''propertyIsEnumerable'', ''toString'', ''valueOf'', ''toLocaleString'']"

definition js_get :: "js_object \<Rightarrow> string \<Rightarrow> jsvalue" where
  \<comment> \<open>\<open>obj[k]\<close>: an own property, else the property \<open>Object.prototype\<close> has under that
     name (a method, or the prototype itself for \<open>__proto__\<close>), else \<open>undefined\<close>.\<close>
  "js_get obj k =
     (case map_of obj k of
        Some v \<Rightarrow> v
      | None \<Rightarrow>
          if k = ''__proto__'' \<or> k \<in> set Object_prototype_methods then Obj else Undefined)"

fun js_put :: "string \<Rightarrow> jsvalue \<Rightarrow> js_object \<Rightarrow> js_object" where
  "js_put k v [] = [(k, v)]"
| "js_put k v ((k', v') # ps) = (if k' = k then (k, v) # ps else (k', v') # js_put k v ps)"

definition js_set :: "js_object \<Rightarrow> string \<Rightarrow> jsvalue \<Rightarrow> js_object" where
  \<comment> \<open>\<open>obj[k] = v\<close> for a primitive \<open>v\<close>: the inherited setter of \<open>__proto__\<close> ignores a
     value that is neither an object nor null; any other name becomes or stays an own
     property, a new one last.\<close>
  "js_set obj k v = (if k = ''__proto__'' then obj else js_put k v obj)"

definition js_or_zero :: "jsvalue \<Rightarrow> jsvalue" where
  \<comment> \<open>\<open>v || 0\<close>: \<open>undefined\<close>, \<open>NaN\<close> and \<open>0\<close> are falsy.\<close>
  "js_or_zero v = (case v of Undefined \<Rightarrow> Num 0 | NaN \<Rightarrow> Num 0 | Num 0 \<Rightarrow> Num 0 | _ \<Rightarrow> v)"

definition js_plus_one :: "jsvalue \<Rightarrow> jsvalue" where
  \<comment> \<open>\<open>v + 1\<close>: addition on numbers, concatenation once an operand is a string or an
     object (whose primitive value is a string).\<close>
  "js_plus_one v =
     (case v of Num n \<Rightarrow> Num (n + 1) | Str \<Rightarrow> Str | Obj \<Rightarrow> Str | Undefined \<Rightarrow> NaN | NaN \<Rightarrow> NaN)"

definition is_digit :: "char \<Rightarrow> bool" where
  "is_digit c = (48 \<le> (of_char c :: nat) \<and> (of_char c :: nat) \<le> 57)"

definition decimal_value :: "string \<Rightarrow> nat" where
  "decimal_value s = foldl (\<lambda>n c. 10 * n + (of_char c - 48)) 0 s"

definition is_array_index :: "string \<Rightarrow> bool" where
  \<comment> \<open>A property name that is the canonical decimal numeral of an integer below
     \<open>2\<^sup>3\<^sup>2 - 1\<close>.\<close>
  "is_array_index s =
     (s \<noteq> [] \<and> list_all is_digit s \<and> (s = ''0'' \<or> hd s \<noteq> CHR ''0'')
      \<and> decimal_value s < 2 ^ 32 - 1)"

definition Object_entries :: "js_object \<Rightarrow> (string \<times> jsvalue) list" where
  \<comment> \<open>\<open>Object.entries(obj)\<close>: the array indices in ascending numeric order, then the
     other names in the order of their creation.\<close>
  "Object_entries obj =
     sort_key (\<lambda>p. decimal_value (fst p)) (filter (\<lambda>p. is_array_index (fst p)) obj)
     @ filter (\<lambda>p. \<not> is_array_index (fst p)) obj"

text \<open>
  \<open>Array.prototype.sort\<close> with a comparator. The sort is stable, and for a consistent
  comparator its result is the one stable ordering, which insertion from the right
  computes. A comparator result \<open>NaN\<close> (\<open>None\<close> here) counts as \<open>+0\<close>. For an inconsistent
  comparator (one that returns \<open>NaN\<close> on some pairs of three or more entries) the
  standard leaves the order to the engine, and the order of the model need not be the
  order of a given engine; nothing below is stated about such inputs.
\<close>

definition sort_compare :: "('a \<Rightarrow> 'a \<Rightarrow> int option) \<Rightarrow> 'a \<Rightarrow> 'a \<Rightarrow> int" where
  "sort_compare comparefn x y = (case comparefn x y of None \<Rightarrow> 0 | Some v \<Rightarrow> v)"

fun insert_sorted :: "('a \<Rightarrow> 'a \<Rightarrow> int option) \<Rightarrow> 'a \<Rightarrow> 'a list \<Rightarrow> 'a list" where
  "insert_sorted comparefn x [] = [x]"
| "insert_sorted comparefn x (y # ys) =
     (if sort_compare comparefn x y \<le> 0 then x # y # ys
      else y # insert_sorted comparefn x ys)"

definition Array_sort :: "('a \<Rightarrow> 'a \<Rightarrow> int option) \<Rightarrow> 'a list \<Rightarrow> 'a list" where
  "Array_sort comparefn xs = foldr (insert_sorted comparefn) xs []"

definition js_minus :: "jsvalue \<Rightarrow> jsvalue \<Rightarrow> int option" where
  \<comment> \<open>\<open>b - a\<close> on the values above: a difference of numbers, else \<open>NaN\<close>.\<close>
  "js_minus b a = (case (b, a) of (Num y, Num x) \<Rightarrow> Some (int y - int x) | _ \<Rightarrow> None)"

definition parseFloat_toFixed :: "real \<Rightarrow> nat \<Rightarrow> real" where
  \<comment> \<open>\<open>parseFloat(x.toFixed(f))\<close>: \<open>toFixed\<close> prints the sign and, for \<open>|x| < 10\<^sup>2\<^sup>1\<close>, the
     integer \<open>n\<close> with \<open>n / 10\<^sup>f\<close> nearest to \<open>|x|\<close> (the larger one of two) with \<open>f\<close>
     decimals, and else the number itself; \<open>parseFloat\<close> reads the printed number back.\<close>
  "parseFloat_toFixed x f =
     (if 10 ^ 21 \<le> \<bar>x\<bar> then x
      else sgn x * (of_int \<lfloor>\<bar>x\<bar> * 10 ^ f + 1 / 2\<rfloor> / 10 ^ f))"

section \<open>components/Dashboard.tsx\<close>

text \<open>The entries \<open>{name, value}\<close> and \<open>{name, co2}\<close> are pairs.\<close>

record Stats =
  totalTrees :: nat
  totalCarbon :: real
  totalStormwater :: real
  totalPollution :: real
  totalMonetaryValue :: real
  speciesData :: "(string \<times> jsvalue) list"
  monetaryBreakdown :: "(string \<times> real) list"
  carbonByConditionData :: "(TreeCondition \<times> real) list"

definition countSpecies :: "js_object \<Rightarrow> TreeData \<Rightarrow> js_object" where
  \<comment> \<open>The reducer of \<open>speciesCount\<close>:
     \<open>acc[tree.species] = (acc[tree.species] || 0) + 1; return acc\<close>.\<close>
  "countSpecies acc tree =
     js_set acc (species tree) (js_plus_one (js_or_zero (js_get acc (species tree))))"

definition speciesCount :: "TreeData list \<Rightarrow> js_object" where
  "speciesCount ts = foldl countSpecies [] ts"

definition entry_or_zero :: "(TreeCondition \<rightharpoonup> real) \<Rightarrow> TreeCondition \<Rightarrow> real" where
  "entry_or_zero acc c = (case acc c of Some v \<Rightarrow> v | None \<Rightarrow> 0)"

definition addCarbon :: "(TreeCondition \<rightharpoonup> real) \<Rightarrow> TreeData \<Rightarrow> (TreeCondition \<rightharpoonup> real)" where
  \<comment> \<open>The reducer of \<open>carbonByCondition\<close>. \<open>!acc[condition]\<close> holds for a missing entry
     and for an entry 0; after the reset the entry exists, and \<open>+=\<close> adds to it.\<close>
  "addCarbon acc tree =
     (let condition = condition tree;
          acc1 = (if acc condition = None \<or> acc condition = Some 0
                  then acc(condition \<mapsto> 0) else acc)
      in acc1(condition \<mapsto>
           entry_or_zero acc1 condition + co2Sequestrated (carbon_metrics tree)))"

definition carbonByCondition :: "TreeData list \<Rightarrow> (TreeCondition \<rightharpoonup> real)" where
  "carbonByCondition ts = foldl addCarbon Map.empty ts"

definition conditionOrder :: "TreeCondition list" where
  "conditionOrder = [HEALTHY, DAMAGED, DEAD]"

definition stats :: "TreeData list \<Rightarrow> Stats" where
  "stats ts =
     (if length ts = 0
      then \<lparr>totalTrees = 0, totalCarbon = 0, totalStormwater = 0, totalPollution = 0,
             totalMonetaryValue = 0, speciesData = [], monetaryBreakdown = [],
             carbonByConditionData = []\<rparr>
      else
        let totalTrees = length ts;
            totalCarbon =
              foldl (\<lambda>acc tree. acc + co2Sequestrated (carbon_metrics tree)) 0 ts;
            totalStormwater =
              foldl (\<lambda>acc tree. acc + stormwaterInterceptedLiters (ecosystemServices tree)) 0 ts;
            totalPollution =
              foldl (\<lambda>acc tree. acc + airPollutionRemovedGrams (ecosystemServices tree)) 0 ts;
            totalMonetaryValue =
              foldl (\<lambda>acc tree. acc + total (annualMonetaryValue (ecosystemServices tree))) 0 ts;
            totalValueCarbon =
              foldl (\<lambda>acc tree. acc + carbon (annualMonetaryValue (ecosystemServices tree))) 0 ts;
            totalValueStormwater =
              foldl (\<lambda>acc tree. acc + stormwater (annualMonetaryValue (ecosystemServices tree)))
                0 ts;
            totalValueAirQuality =
              foldl (\<lambda>acc tree. acc + airQuality (annualMonetaryValue (ecosystemServices tree)))
                0 ts;
            totalValueEnergy =
              foldl (\<lambda>acc tree. acc + energy (annualMonetaryValue (ecosystemServices tree))) 0 ts;
            speciesData =
              Array_sort (\<lambda>a b. js_minus (snd b) (snd a))
                (map (\<lambda>(name, value). (name, value)) (Object_entries (speciesCount ts)));
            monetaryBreakdown =
              filter (\<lambda>item. snd item > 0)
                [(''Penyimpanan Karbon'', totalValueCarbon),
                 (''Manajemen Air Hujan'', totalValueStormwater),
                 (''Kualitas Udara'', totalValueAirQuality),
                 (''Penghematan Energi'', totalValueEnergy)];
            carbonByConditionData =
              filter (\<lambda>item. snd item > 0)
                (map (\<lambda>condition.
                        (condition,
                         (case carbonByCondition ts condition of
                            None \<Rightarrow> 0
                          | Some v \<Rightarrow> if v = 0 then 0 else parseFloat_toFixed v 2)))
                   conditionOrder)
        in \<lparr>totalTrees = totalTrees, totalCarbon = totalCarbon,
             totalStormwater = totalStormwater, totalPollution = totalPollution,
             totalMonetaryValue = totalMonetaryValue, speciesData = speciesData,
             monetaryBreakdown = monetaryBreakdown,
             carbonByConditionData = carbonByConditionData\<rparr>)"

section \<open>Sample records and the spec's carbon-by-condition\<close>

text \<open>
  A tree record with a given species, condition and \<open>co2Sequestrated\<close>, for concrete
  inputs of the dashboard: the fields the aggregation does not read are fixed.
\<close>

definition sample_tree :: "string \<Rightarrow> TreeCondition \<Rightarrow> real \<Rightarrow> TreeData" where
  "sample_tree name cond co2 =
     \<lparr>species = name, dbh = 0, height = 0, condition = cond, proximityToBuilding = NoneP,
      tree_notes = [], photo = [], latitude = 0, longitude = 0, inventoryDate = [],
      tree_id = 0,
      carbon_metrics = \<lparr>biomass = 0, carbonStored = 0, co2Sequestrated = co2\<rparr>,
      ecosystemServices =
        \<lparr>stormwaterInterceptedLiters = 0, airPollutionRemovedGrams = 0,
         energySavingsIDR = 0,
         annualMonetaryValue =
           \<lparr>total = 0, carbon = 0, stormwater = 0, airQuality = 0, energy = 0\<rparr>\<rparr>\<rparr>"

definition sample_measurement :: NewTreeData where
  "sample_measurement =
     \<lparr>species = ''Jati'', dbh = 30, height = 12, condition = HEALTHY,
      proximityToBuilding = Near, tree_notes = [], photo = [], latitude = 0,
      longitude = 0, inventoryDate = []\<rparr>"

definition co2_of_condition :: "TreeCondition \<Rightarrow> TreeData list \<Rightarrow> real" where
  \<comment> \<open>The sum of \<open>co2Sequestrated\<close> over the trees of one condition.\<close>
  "co2_of_condition c ts =
     sum_list (map (\<lambda>t. co2Sequestrated (carbon_metrics t)) (filter (\<lambda>t. condition t = c) ts))"

definition spec_carbonByConditionData :: "TreeData list \<Rightarrow> (TreeCondition \<times> real) list" where
  \<comment> \<open>The carbon-by-condition sequence in the words of the spec: one entry per condition
     whose summed \<open>co2Sequestrated\<close> is positive, with that sum, in the order Healthy,
     Damaged, Dead.\<close>
  "spec_carbonByConditionData ts =
     filter (\<lambda>item. snd item > 0)
       (map (\<lambda>c. (c, co2_of_condition c ts)) [HEALTHY, DAMAGED, DEAD])"

section \<open>Notions for the species count\<close>

definition ordinary_name :: "string \<Rightarrow> bool" where
  \<comment> \<open>A species string that names no property of \<open>Object.prototype\<close>.\<close>
  "ordinary_name k = (k \<noteq> ''__proto__'' \<and> k \<notin> set Object_prototype_methods)"

definition count_of :: "jsvalue \<Rightarrow> nat" where
  "count_of v = (case v of Num n \<Rightarrow> n | _ \<Rightarrow> 0)"

definition all_counts :: "js_object \<Rightarrow> bool" where
  \<comment> \<open>Every value of the object is a number.\<close>
  "all_counts obj = list_all (\<lambda>p. snd p = Num (count_of (snd p))) obj"

definition entry_count :: "js_object \<Rightarrow> string \<Rightarrow> nat" where
  "entry_count obj k = (case map_of obj k of Some v \<Rightarrow> count_of v | None \<Rightarrow> 0)"

definition descending :: "(string \<times> jsvalue) list \<Rightarrow> bool" where
  "descending xs = sorted_wrt (\<lambda>a b. count_of (snd b) \<le> count_of (snd a)) xs"

section \<open>The carbon model\<close>

lemma Math_pow_square: "0 < x \<Longrightarrow> Math_pow x 2 = x ^ 2"
  by (simp add: Math_pow_def powr_numeral)

lemma calculateCarbonMetrics_pos:
  fixes dbh height :: real
  assumes "0 < dbh" and "0 < height"
  shows "calculateCarbonMetrics dbh height =
           \<lparr>biomass = 0.0673 * (0.6 * dbh ^ 2 * height) powr 0.976,
            carbonStored = 0.0673 * (0.6 * dbh ^ 2 * height) powr 0.976 * 0.47,
            co2Sequestrated = 0.0673 * (0.6 * dbh ^ 2 * height) powr 0.976 * 0.47 * 3.67\<rparr>"
proof -
  from assms have guard: "\<not> (dbh \<le> 0 \<or> height \<le> 0)"
    by simp
  have sq: "Math_pow dbh 2 = dbh ^ 2"
    using assms(1) by (rule Math_pow_square)
  show ?thesis
    unfolding calculateCarbonMetrics_def Let_def if_not_P [OF guard] sq
    by (simp add: Math_pow_def WOOD_DENSITY_def CARBON_CONVERSION_FACTOR_def
        CO2_CONVERSION_FACTOR_def)
qed

lemma calculateCarbonMetrics_degenerate:
  fixes dbh height :: real
  shows "dbh \<le> 0 \<or> height \<le> 0 \<Longrightarrow>
     calculateCarbonMetrics dbh height = \<lparr>biomass = 0, carbonStored = 0, co2Sequestrated = 0\<rparr>"
  by (simp add: calculateCarbonMetrics_def)

lemma biomass_base_pos: "0 < d \<Longrightarrow> 0 < h \<Longrightarrow> 0 < 0.6 * d ^ 2 * (h :: real)"
  by simp

text \<open>
  Claim C1. For positive \<open>dbh\<close> and \<open>height\<close>, \<open>calculateCarbonMetrics\<close> returns
  \<open>biomass = 0.0673 * (0.6 * dbh\<^sup>2 * height)\<^bsup>0.976\<^esup>\<close>, \<open>carbonStored = biomass * 0.47\<close> and
  \<open>co2Sequestrated = carbonStored * 3.67\<close>, with a positive biomass; when \<open>dbh \<le> 0\<close> or
  \<open>height \<le> 0\<close> all three metrics are exactly 0.
\<close>

theorem C1_calculateCarbonMetrics:
  fixes dbh height :: real
  shows
  "(0 < dbh \<and> 0 < height \<longrightarrow>
      biomass (calculateCarbonMetrics dbh height) = 0.0673 * (0.6 * dbh ^ 2 * height) powr 0.976
    \<and> carbonStored (calculateCarbonMetrics dbh height) =
        biomass (calculateCarbonMetrics dbh height) * 0.47
    \<and> co2Sequestrated (calculateCarbonMetrics dbh height) =
        carbonStored (calculateCarbonMetrics dbh height) * 3.67
    \<and> 0 < biomass (calculateCarbonMetrics dbh height))
   \<and> (dbh \<le> 0 \<or> height \<le> 0 \<longrightarrow>
        biomass (calculateCarbonMetrics dbh height) = 0
      \<and> carbonStored (calculateCarbonMetrics dbh height) = 0
      \<and> co2Sequestrated (calculateCarbonMetrics dbh height) = 0)"
proof (intro conjI impI)
  assume pos: "0 < dbh \<and> 0 < height"
  then have eq: "calculateCarbonMetrics dbh height =
      \<lparr>biomass = 0.0673 * (0.6 * dbh ^ 2 * height) powr 0.976,
       carbonStored = 0.0673 * (0.6 * dbh ^ 2 * height) powr 0.976 * 0.47,
       co2Sequestrated = 0.0673 * (0.6 * dbh ^ 2 * height) powr 0.976 * 0.47 * 3.67\<rparr>"
    by (simp add: calculateCarbonMetrics_pos)
  show "biomass (calculateCarbonMetrics dbh height) =
      0.0673 * (0.6 * dbh ^ 2 * height) powr 0.976"
    by (simp add: eq)
  show "carbonStored (calculateCarbonMetrics dbh height) =
      biomass (calculateCarbonMetrics dbh height) * 0.47"
    by (simp add: eq)
  show "co2Sequestrated (calculateCarbonMetrics dbh height) =
      carbonStored (calculateCarbonMetrics dbh height) * 3.67"
    by (simp add: eq)
  from pos have "0 < 0.6 * dbh ^ 2 * height"
    by (simp add: biomass_base_pos)
  then have "0.6 * dbh ^ 2 * height \<noteq> 0"
    by (metis less_irrefl)
  then have "0 < (0.6 * dbh ^ 2 * height) powr 0.976"
    unfolding powr_gt_zero .
  then show "0 < biomass (calculateCarbonMetrics dbh height)"
    by (simp add: eq)
next
  assume deg: "dbh \<le> 0 \<or> height \<le> 0"
  then have z: "calculateCarbonMetrics dbh height =
      \<lparr>biomass = 0, carbonStored = 0, co2Sequestrated = 0\<rparr>"
    by (rule calculateCarbonMetrics_degenerate)
  show "biomass (calculateCarbonMetrics dbh height) = 0"
    by (simp add: z)
  show "carbonStored (calculateCarbonMetrics dbh height) = 0"
    by (simp add: z)
  show "co2Sequestrated (calculateCarbonMetrics dbh height) = 0"
    by (simp add: z)
qed

theorem C1_calculateCarbonMetrics_witness:
  "(0 :: real) < 50 \<and> (0 :: real) < 25
   \<and> biomass (calculateCarbonMetrics 50 25) = 0.0673 * (0.6 * 50 ^ 2 * 25) powr 0.976
   \<and> carbonStored (calculateCarbonMetrics 50 25) = biomass (calculateCarbonMetrics 50 25) * 0.47
   \<and> co2Sequestrated (calculateCarbonMetrics 50 25) =
       carbonStored (calculateCarbonMetrics 50 25) * 3.67
   \<and> 0 < biomass (calculateCarbonMetrics 50 25)
   \<and> (0 :: real) \<le> 0
   \<and> biomass (calculateCarbonMetrics 0 25) = 0
   \<and> carbonStored (calculateCarbonMetrics 0 25) = 0
   \<and> co2Sequestrated (calculateCarbonMetrics 0 25) = 0"
  using C1_calculateCarbonMetrics [of 50 25] C1_calculateCarbonMetrics [of 0 25]
  by simp

section \<open>The ecosystem service model\<close>

lemma calculateEcosystemServices_degenerate:
  fixes dbh :: real
  assumes "dbh \<le> 0"
  shows "calculateEcosystemServices dbh p =
     \<lparr>stormwaterInterceptedLiters = 0, airPollutionRemovedGrams = 0, energySavingsIDR = 0,
      annualMonetaryValue =
        \<lparr>total = 0, carbon = 0, stormwater = 0, airQuality = 0, energy = 0\<rparr>\<rparr>"
  using assms by (simp add: calculateEcosystemServices_def)

lemma calculateEcosystemServices_pos:
  fixes dbh :: real
  assumes "0 < dbh"
  shows "calculateEcosystemServices dbh p =
     \<lparr>stormwaterInterceptedLiters = exp (- 2.2 + 1.8 * ln dbh) * 180,
      airPollutionRemovedGrams = exp (- 2.2 + 1.8 * ln dbh) * 1.5,
      energySavingsIDR = (if p = Near then (10 + dbh * 0.25) * 16000 else 0),
      annualMonetaryValue =
        \<lparr>total =
           co2Sequestrated (calculateCarbonMetrics dbh (dbh * 0.5)) * (0.05 * 16000)
           + exp (- 2.2 + 1.8 * ln dbh) * 180 * (0.002 * 16000)
           + exp (- 2.2 + 1.8 * ln dbh) * 1.5 * (0.08 * 16000)
           + (if p = Near then (10 + dbh * 0.25) * 16000 else 0),
         carbon = co2Sequestrated (calculateCarbonMetrics dbh (dbh * 0.5)) * (0.05 * 16000),
         stormwater = exp (- 2.2 + 1.8 * ln dbh) * 180 * (0.002 * 16000),
         airQuality = exp (- 2.2 + 1.8 * ln dbh) * 1.5 * (0.08 * 16000),
         energy = (if p = Near then (10 + dbh * 0.25) * 16000 else 0)\<rparr>\<rparr>"
proof -
  from assms have guard: "\<not> dbh \<le> 0"
    by simp
  show ?thesis
    unfolding calculateEcosystemServices_def Let_def if_not_P [OF guard]
      USD_TO_IDR_RATE_def SOCIAL_COST_OF_CARBON_PER_KG_CO2_IDR_def
      STORMWATER_MANAGEMENT_COST_PER_LITER_IDR_def
      AIR_POLLUTION_HEALTH_SAVINGS_PER_GRAM_IDR_def LEAF_AREA_PARAM_A_def
      LEAF_AREA_PARAM_B_def RAINFALL_INTERCEPTION_LITERS_PER_M2_LEAF_AREA_def
      POLLUTION_REMOVAL_GRAMS_PER_M2_LEAF_AREA_def
    by (cases "p = Near") simp_all
qed

lemma handleAddTree_trees:
  "trees (handleAddTree now m st) =
     \<lparr>species = species m, dbh = dbh m, height = height m, condition = condition m,
      proximityToBuilding = proximityToBuilding m, tree_notes = tree_notes m,
      photo = photo m, latitude = latitude m, longitude = longitude m,
      inventoryDate = inventoryDate m, tree_id = now,
      carbon_metrics = calculateCarbonMetrics (dbh m) (height m),
      ecosystemServices = calculateEcosystemServices (dbh m) (proximityToBuilding m)\<rparr>
     # trees st"
  by (simp add: handleAddTree_def Let_def)

text \<open>
  Claim C2. For every \<open>dbh > 0\<close> and every proximity, the carbon component of
  \<open>annualMonetaryValue\<close> is the \<open>co2Sequestrated\<close> of a second carbon computation at the
  height \<open>dbh * 0.5\<close>, times \<open>0.05 * 16000\<close>. The record that \<open>handleAddTree\<close> assembles
  carries this value, whatever height was recorded for the tree.
\<close>

theorem C2_carbon_value_from_estimated_height:
  fixes dbh :: real
  assumes "0 < dbh"
  shows "carbon (annualMonetaryValue (calculateEcosystemServices dbh p)) =
           co2Sequestrated (calculateCarbonMetrics dbh (dbh * 0.5)) * (0.05 * 16000)
         \<and> (\<forall>now m st. NewTreeData.dbh m = dbh \<longrightarrow>
               carbon (annualMonetaryValue
                 (ecosystemServices (hd (trees (handleAddTree now m st))))) =
               co2Sequestrated (calculateCarbonMetrics dbh (dbh * 0.5)) * (0.05 * 16000))"
proof (intro conjI allI impI)
  show direct: "carbon (annualMonetaryValue (calculateEcosystemServices dbh p)) =
      co2Sequestrated (calculateCarbonMetrics dbh (dbh * 0.5)) * (0.05 * 16000)" for p
    by (simp add: calculateEcosystemServices_pos [OF assms])
  fix now :: int and m :: NewTreeData and st :: AppState
  assume m: "NewTreeData.dbh m = dbh"
  have "ecosystemServices (hd (trees (handleAddTree now m st))) =
      calculateEcosystemServices dbh (proximityToBuilding m)"
    by (simp add: handleAddTree_trees m)
  then show "carbon (annualMonetaryValue
        (ecosystemServices (hd (trees (handleAddTree now m st))))) =
      co2Sequestrated (calculateCarbonMetrics dbh (dbh * 0.5)) * (0.05 * 16000)"
    by (simp only: direct)
qed

theorem C2_carbon_value_from_estimated_height_witness:
  "(0 :: real) < 10
   \<and> carbon (annualMonetaryValue (calculateEcosystemServices 10 Near)) =
       co2Sequestrated (calculateCarbonMetrics 10 (10 * 0.5)) * (0.05 * 16000)
   \<and> carbon (annualMonetaryValue (ecosystemServices (hd (trees
         (handleAddTree 1700000000000
            \<lparr>species = ''Jati'', dbh = 10, height = 7, condition = HEALTHY,
             proximityToBuilding = Near, tree_notes = [], photo = [], latitude = 0,
             longitude = 0, inventoryDate = []\<rparr>
            \<lparr>trees = [], view = View_form\<rparr>))))) =
       co2Sequestrated (calculateCarbonMetrics 10 (10 * 0.5)) * (0.05 * 16000)"
  using C2_carbon_value_from_estimated_height [of 10 Near]
  by simp

text \<open>
  Claim C3. For every \<open>dbh\<close> and every proximity, the \<open>total\<close> of \<open>annualMonetaryValue\<close>
  is the sum of its four components, in the branch \<open>dbh \<le> 0\<close> (all five fields 0) as
  well.
\<close>

theorem C3_total_is_sum_of_components:
  fixes dbh :: real
  shows "total (annualMonetaryValue (calculateEcosystemServices dbh p)) =
           carbon (annualMonetaryValue (calculateEcosystemServices dbh p))
           + stormwater (annualMonetaryValue (calculateEcosystemServices dbh p))
           + airQuality (annualMonetaryValue (calculateEcosystemServices dbh p))
           + energy (annualMonetaryValue (calculateEcosystemServices dbh p))"
proof (cases "dbh \<le> 0")
  case True
  then show ?thesis
    by (simp add: calculateEcosystemServices_degenerate)
next
  case False
  then have "0 < dbh"
    by simp
  then show ?thesis
    by (simp add: calculateEcosystemServices_pos)
qed

text \<open>
  Claim C6. For every \<open>dbh > 0\<close>: with proximity \<open>Far\<close> or \<open>None\<close> the result has
  \<open>energySavingsIDR = 0\<close>; with \<open>Near\<close> it has \<open>energySavingsIDR = (10 + 0.25 * dbh) * 16000\<close>,
  which is 360000 at \<open>dbh = 50\<close>.
\<close>

theorem C6_energy_savings:
  fixes dbh :: real
  assumes "0 < dbh"
  shows "energySavingsIDR (calculateEcosystemServices dbh Far) = 0
         \<and> energySavingsIDR (calculateEcosystemServices dbh NoneP) = 0
         \<and> energySavingsIDR (calculateEcosystemServices dbh Near) = (10 + 0.25 * dbh) * 16000
         \<and> energySavingsIDR (calculateEcosystemServices 50 Near) = 360000"
proof (intro conjI)
  show "energySavingsIDR (calculateEcosystemServices dbh Far) = 0"
    by (simp add: calculateEcosystemServices_pos [OF assms])
  show "energySavingsIDR (calculateEcosystemServices dbh NoneP) = 0"
    by (simp add: calculateEcosystemServices_pos [OF assms])
  show "energySavingsIDR (calculateEcosystemServices dbh Near) = (10 + 0.25 * dbh) * 16000"
    by (simp add: calculateEcosystemServices_pos [OF assms])
  have "(0 :: real) < 50"
    by simp
  then show "energySavingsIDR (calculateEcosystemServices 50 Near) = 360000"
    by (simp add: calculateEcosystemServices_pos)
qed

theorem C6_energy_savings_witness:
  "(0 :: real) < 20
   \<and> energySavingsIDR (calculateEcosystemServices 20 Far) = 0
   \<and> energySavingsIDR (calculateEcosystemServices 20 NoneP) = 0
   \<and> energySavingsIDR (calculateEcosystemServices 20 Near) = 240000
   \<and> energySavingsIDR (calculateEcosystemServices 50 Near) = 360000"
  using C6_energy_savings [of 20] by simp

text \<open>
  Claim C7. For every \<open>dbh \<le> 0\<close> and every proximity, \<open>calculateEcosystemServices\<close>
  returns (it is a total function: there is no error value) the result whose fields,
  the five of the monetary breakdown included, are all 0.
\<close>

theorem C7_degenerate_all_zero:
  fixes dbh :: real
  assumes "dbh \<le> 0"
  shows "stormwaterInterceptedLiters (calculateEcosystemServices dbh p) = 0
         \<and> airPollutionRemovedGrams (calculateEcosystemServices dbh p) = 0
         \<and> energySavingsIDR (calculateEcosystemServices dbh p) = 0
         \<and> annualMonetaryValue (calculateEcosystemServices dbh p) =
             \<lparr>total = 0, carbon = 0, stormwater = 0, airQuality = 0, energy = 0\<rparr>"
  using assms by (simp add: calculateEcosystemServices_degenerate)

theorem C7_degenerate_all_zero_witness:
  "(- 3 :: real) \<le> 0
   \<and> stormwaterInterceptedLiters (calculateEcosystemServices (- 3) Near) = 0
   \<and> airPollutionRemovedGrams (calculateEcosystemServices (- 3) Near) = 0
   \<and> energySavingsIDR (calculateEcosystemServices (- 3) Near) = 0
   \<and> annualMonetaryValue (calculateEcosystemServices (- 3) Near) =
       \<lparr>total = 0, carbon = 0, stormwater = 0, airQuality = 0, energy = 0\<rparr>"
  using C7_degenerate_all_zero [of "- 3" Near] by simp

text \<open>
  In exact arithmetic the two fields of the embedding are in the ratio 120: both are the
  leaf area \<open>exp (-2.2 + 1.8 * ln dbh)\<close>, times 180 and times 1.5, or both are 0.
\<close>

lemma leaf_area_products_exact_ratio:
  fixes dbh :: real
  shows "stormwaterInterceptedLiters (calculateEcosystemServices dbh p) =
           120 * airPollutionRemovedGrams (calculateEcosystemServices dbh p)"
proof (cases "dbh \<le> 0")
  case True
  then show ?thesis
    by (simp add: calculateEcosystemServices_degenerate)
next
  case False
  then have pos: "0 < dbh"
    by simp
  have "exp (- 2.2 + 1.8 * ln dbh) * 180 = 120 * (exp (- 2.2 + 1.8 * ln dbh) * 1.5)"
    by simp
  with pos show ?thesis
    by (simp add: calculateEcosystemServices_pos)
qed

text \<open>
  The rounding to binary64: its value on a binade, and its relative error
  \<open>2\<^bsup>-53\<^esup>\<close> from \<open>2\<^bsup>-1022\<^esup>\<close> on.
\<close>

lemma round_half_even_near: "\<bar>of_int (round_half_even x) - x\<bar> \<le> 1 / 2"
proof -
  have "of_int \<lfloor>x\<rfloor> \<le> x" and "x < of_int \<lfloor>x\<rfloor> + 1"
    by linarith+
  then show ?thesis
    by (auto simp: round_half_even_def Let_def)
qed

lemma floor_log2_binade:
  assumes "2 powi k \<le> \<bar>x\<bar>" and "\<bar>x\<bar> < 2 powi (k + 1)"
  shows "\<lfloor>log 2 \<bar>x\<bar>\<rfloor> = k"
proof -
  have pos: "0 < \<bar>x\<bar>"
    using assms(1) by (smt (verit) zero_less_power_int)
  have "(2 :: real) powr of_int k = 2 powi k" "(2 :: real) powr (of_int k + 1) = 2 powi (k + 1)"
    using powr_real_of_int' [of 2 k] powr_real_of_int' [of 2 "k + 1"] by simp_all
  with assms show ?thesis
    using floor_log_eq_powr_iff [of "\<bar>x\<bar>" 2 k] pos by simp
qed

lemma binary64_binade:
  assumes "2 powi k \<le> \<bar>x\<bar>" and "\<bar>x\<bar> < 2 powi (k + 1)" and "- 1022 \<le> k"
  shows "binary64 x = of_int (round_half_even (x / 2 powi (k - 52))) * 2 powi (k - 52)"
proof -
  have "x \<noteq> 0"
    using assms(1) by (smt (verit) zero_less_power_int)
  moreover have "max \<lfloor>log 2 \<bar>x\<bar>\<rfloor> (- 1022) = k"
    using floor_log2_binade [OF assms(1,2)] assms(3) by simp
  ultimately show ?thesis
    by (simp add: binary64_def Let_def)
qed

lemma binary64_error:
  assumes "2 powi (- 1022) \<le> \<bar>x\<bar>"
  shows "\<bar>binary64 x - x\<bar> \<le> \<bar>x\<bar> / 2 ^ 53"
proof -
  define k where "k = \<lfloor>log 2 \<bar>x\<bar>\<rfloor>"
  have pos: "0 < \<bar>x\<bar>"
    using assms by (smt (verit) zero_less_power_int)
  have "(2 :: real) powr of_int k = 2 powi k" "(2 :: real) powr (of_int k + 1) = 2 powi (k + 1)"
    using powr_real_of_int' [of 2 k] powr_real_of_int' [of 2 "k + 1"] by simp_all
  with floor_log_eq_powr_iff [of "\<bar>x\<bar>" 2 k] pos
  have lo: "2 powi k \<le> \<bar>x\<bar>" and hi: "\<bar>x\<bar> < 2 powi (k + 1)"
    by (simp_all add: k_def)
  have "(2 :: real) powi (- 1022) < 2 powi (k + 1)"
    using assms hi by linarith
  have k: "- 1022 \<le> k"
  proof (rule ccontr)
    assume "\<not> - 1022 \<le> k"
    then have "k + 1 \<le> - 1022"
      by simp
    then have "(2 :: real) powi (k + 1) \<le> 2 powi (- 1022)"
      by (rule power_int_increasing) simp
    with \<open>(2 :: real) powi (- 1022) < 2 powi (k + 1)\<close> show False
      by simp
  qed
  define u :: real where "u = 2 powi (k - 52)"
  have u: "0 < u"
    by (simp add: u_def)
  have b: "binary64 x = of_int (round_half_even (x / u)) * u"
    unfolding u_def using lo hi k by (rule binary64_binade)
  have "binary64 x - x = (of_int (round_half_even (x / u)) - x / u) * u"
    using u by (simp add: b left_diff_distrib)
  then have "\<bar>binary64 x - x\<bar> = \<bar>of_int (round_half_even (x / u)) - x / u\<bar> * u"
    using u by (simp only: abs_mult abs_of_pos)
  also have "\<dots> \<le> 1 / 2 * u"
    using round_half_even_near [of "x / u"] u by (intro mult_right_mono) simp_all
  also have "1 / 2 * u = 2 powi k / 2 ^ 53"
    by (simp add: u_def power_int_diff)
  also have "\<dots> \<le> \<bar>x\<bar> / 2 ^ 53"
    using lo by (simp add: divide_right_mono)
  finally show ?thesis .
qed


lemma binary64_error_pos:
  assumes "1 / 2 ^ 1022 \<le> x"
  shows "\<bar>binary64 x - x\<bar> \<le> x / 2 ^ 53"
proof -
  have "(0 :: real) < 1 / 2 ^ 1022"
    by simp
  with assms have pos: "0 < x"
    by linarith
  have "(2 :: real) powi (- 1022) = 1 / 2 ^ 1022"
    by (simp add: power_int_minus_divide)
  with assms pos have "2 powi (- 1022) \<le> \<bar>x\<bar>"
    by simp
  then have "\<bar>binary64 x - x\<bar> \<le> \<bar>x\<bar> / 2 ^ 53"
    by (rule binary64_error)
  with pos show ?thesis
    by simp
qed

lemma rounded_products_close:
  assumes "1 / 2 ^ 1022 \<le> L"
  shows "\<bar>binary64 (L * 180) - 120 * binary64 (L * 1.5)\<bar> \<le> 180 * L / 2 ^ 52"
proof -
  have "(0 :: real) < 1 / 2 ^ 1022"
    by simp
  with assms have pos: "0 < L"
    by linarith
  from assms pos have "1 / 2 ^ 1022 \<le> L * 180"
    by linarith
  then have s: "\<bar>binary64 (L * 180) - L * 180\<bar> \<le> L * 180 / 2 ^ 53"
    by (rule binary64_error_pos)
  from assms pos have "1 / 2 ^ 1022 \<le> L * 1.5"
    by linarith
  then have a: "\<bar>binary64 (L * 1.5) - L * 1.5\<bar> \<le> L * 1.5 / 2 ^ 53"
    by (rule binary64_error_pos)
  have "\<bar>binary64 (L * 180) - 120 * binary64 (L * 1.5)\<bar> =
      \<bar>(binary64 (L * 180) - L * 180) - 120 * (binary64 (L * 1.5) - L * 1.5)\<bar>"
    by simp
  also have "\<dots> \<le> \<bar>binary64 (L * 180) - L * 180\<bar>
      + \<bar>120 * (binary64 (L * 1.5) - L * 1.5)\<bar>"
    by (rule abs_triangle_ineq4)
  also have "\<dots> = \<bar>binary64 (L * 180) - L * 180\<bar>
      + 120 * \<bar>binary64 (L * 1.5) - L * 1.5\<bar>"
    by (simp only: abs_mult abs_numeral)
  also have "\<dots> \<le> L * 180 / 2 ^ 53 + 120 * (L * 1.5 / 2 ^ 53)"
    by (intro add_mono mult_left_mono s a) simp
  also have "\<dots> = 180 * L / 2 ^ 52"
    by simp
  finally show ?thesis .
qed

lemma leafArea_at_dbh_1_binary64: "binary64 leafArea_at_dbh_1 = leafArea_at_dbh_1"
proof -
  have "binary64 leafArea_at_dbh_1 =
      of_int (round_half_even (leafArea_at_dbh_1 / 2 powi (- 4 - 52))) * 2 powi (- 4 - 52)"
    by (rule binary64_binade) (simp_all add: leafArea_at_dbh_1_def power_int_minus_divide)
  then show ?thesis
    by (simp add: leafArea_at_dbh_1_def power_int_minus_divide round_half_even_def Let_def)
qed

lemma stormwater_at_dbh_1:
  "binary64 (leafArea_at_dbh_1 * 180) = 2806948477755455 / 2 ^ 47"
proof -
  have "binary64 (leafArea_at_dbh_1 * 180) =
      of_int (round_half_even (leafArea_at_dbh_1 * 180 / 2 powi (4 - 52))) * 2 powi (4 - 52)"
    by (rule binary64_binade) (simp_all add: leafArea_at_dbh_1_def)
  then show ?thesis
    by (simp add: leafArea_at_dbh_1_def power_int_minus_divide round_half_even_def Let_def)
qed

lemma pollution_at_dbh_1:
  "binary64 (leafArea_at_dbh_1 * 1.5) = 2994078376272485 / 2 ^ 54"
proof -
  have "binary64 (leafArea_at_dbh_1 * 1.5) =
      of_int (round_half_even (leafArea_at_dbh_1 * 1.5 / 2 powi (- 3 - 52))) * 2 powi (- 3 - 52)"
    by (rule binary64_binade) (simp_all add: leafArea_at_dbh_1_def power_int_minus_divide)
  then show ?thesis
    by (simp add: leafArea_at_dbh_1_def power_int_minus_divide round_half_even_def Let_def)
qed

lemma binary64_120_pollution_at_dbh_1:
  "binary64 (120 * (2994078376272485 / 2 ^ 54)) = 5613896955510909 / 2 ^ 48"
proof -
  have "binary64 (120 * (2994078376272485 / 2 ^ 54)) =
      of_int (round_half_even (120 * (2994078376272485 / 2 ^ 54) / 2 powi (4 - 52)))
      * 2 powi (4 - 52)"
    by (rule binary64_binade) simp_all
  then show ?thesis
    by (simp add: power_int_minus_divide round_half_even_def Let_def)
qed

text \<open>
  Claim C10, as stated: \<open>stormwaterInterceptedLiters = 120 * airPollutionRemovedGrams\<close>
  for every \<open>dbh\<close>. At \<open>dbh = 1\<close> the two rounded products are
  19.944568505220097 and 0.1662047375435008, and 120 times the second is not the first,
  neither exactly nor after rounding the product (19.944568505220094).
\<close>

theorem C10_separately_rounded_counterexample:
  "stormwaterInterceptedLiters64 1 leafArea_at_dbh_1 \<noteq>
     120 * airPollutionRemovedGrams64 1 leafArea_at_dbh_1
   \<and> stormwaterInterceptedLiters64 1 leafArea_at_dbh_1 \<noteq>
       binary64 (120 * airPollutionRemovedGrams64 1 leafArea_at_dbh_1)
   \<and> stormwaterInterceptedLiters64 1 leafArea_at_dbh_1 = 5613896955510910 / 2 ^ 48
   \<and> airPollutionRemovedGrams64 1 leafArea_at_dbh_1 = 2994078376272485 / 2 ^ 54
   \<and> binary64 leafArea_at_dbh_1 = leafArea_at_dbh_1"
proof -
  have s: "stormwaterInterceptedLiters64 1 leafArea_at_dbh_1 = 5613896955510910 / 2 ^ 48"
    by (simp add: stormwaterInterceptedLiters64_def stormwater_at_dbh_1
        RAINFALL_INTERCEPTION_LITERS_PER_M2_LEAF_AREA_def)
  have a: "airPollutionRemovedGrams64 1 leafArea_at_dbh_1 = 2994078376272485 / 2 ^ 54"
    using pollution_at_dbh_1
    by (simp add: airPollutionRemovedGrams64_def POLLUTION_REMOVAL_GRAMS_PER_M2_LEAF_AREA_def)
  have "(5613896955510910 :: real) / 2 ^ 48 \<noteq> 120 * (2994078376272485 / 2 ^ 54)"
    by simp
  moreover have "(5613896955510910 :: real) / 2 ^ 48 \<noteq>
      binary64 (120 * (2994078376272485 / 2 ^ 54))"
    unfolding binary64_120_pollution_at_dbh_1 by simp
  ultimately show ?thesis
    unfolding s a using leafArea_at_dbh_1_binary64 by blast
qed

text \<open>
  Claim C10, amended. For every \<open>dbh\<close> and every proximity, both fields are 0 in the
  branch \<open>dbh \<le> 0\<close>; for \<open>dbh > 0\<close> both are products of the same leaf area
  \<open>exp (-2.2 + 1.8 * ln dbh)\<close>, by 180 and by 1.5, and on doubles each product is rounded
  on its own. So \<open>stormwaterInterceptedLiters\<close> and \<open>120 * airPollutionRemovedGrams\<close>
  agree up to that rounding: for a leaf area from \<open>2\<^bsup>-1022\<^esup>\<close> to \<open>2\<^bsup>1000\<^esup>\<close> they differ by at
  most \<open>180 * leafArea * 2\<^bsup>-52\<^esup>\<close>.
\<close>

theorem C10_stormwater_120_pollution_up_to_rounding:
  fixes dbh leafArea :: real
  shows
    "(dbh \<le> 0 \<longrightarrow>
        stormwaterInterceptedLiters (calculateEcosystemServices dbh p) = 0
      \<and> airPollutionRemovedGrams (calculateEcosystemServices dbh p) = 0
      \<and> stormwaterInterceptedLiters64 dbh leafArea = 0
      \<and> airPollutionRemovedGrams64 dbh leafArea = 0)
     \<and> (0 < dbh \<longrightarrow>
          stormwaterInterceptedLiters (calculateEcosystemServices dbh p) =
            exp (- 2.2 + 1.8 * ln dbh) * 180
        \<and> airPollutionRemovedGrams (calculateEcosystemServices dbh p) =
            exp (- 2.2 + 1.8 * ln dbh) * 1.5
        \<and> stormwaterInterceptedLiters64 dbh leafArea = binary64 (leafArea * 180)
        \<and> airPollutionRemovedGrams64 dbh leafArea = binary64 (leafArea * 1.5))
     \<and> (1 / 2 ^ 1022 \<le> leafArea \<and> leafArea \<le> 2 ^ 1000 \<longrightarrow>
          \<bar>stormwaterInterceptedLiters64 dbh leafArea
            - 120 * airPollutionRemovedGrams64 dbh leafArea\<bar>
          \<le> 180 * leafArea / 2 ^ 52)"
proof (intro conjI impI)
  assume deg: "dbh \<le> 0"
  then show "stormwaterInterceptedLiters (calculateEcosystemServices dbh p) = 0"
    and "airPollutionRemovedGrams (calculateEcosystemServices dbh p) = 0"
    by (simp_all add: calculateEcosystemServices_degenerate)
  from deg show "stormwaterInterceptedLiters64 dbh leafArea = 0"
    by (simp add: stormwaterInterceptedLiters64_def)
  from deg show "airPollutionRemovedGrams64 dbh leafArea = 0"
    by (simp add: airPollutionRemovedGrams64_def)
next
  assume pos: "0 < dbh"
  then show "stormwaterInterceptedLiters (calculateEcosystemServices dbh p) =
      exp (- 2.2 + 1.8 * ln dbh) * 180"
    and "airPollutionRemovedGrams (calculateEcosystemServices dbh p) =
      exp (- 2.2 + 1.8 * ln dbh) * 1.5"
    by (simp_all add: calculateEcosystemServices_pos)
  from pos show "stormwaterInterceptedLiters64 dbh leafArea = binary64 (leafArea * 180)"
    by (simp add: stormwaterInterceptedLiters64_def
        RAINFALL_INTERCEPTION_LITERS_PER_M2_LEAF_AREA_def)
  from pos show "airPollutionRemovedGrams64 dbh leafArea = binary64 (leafArea * 1.5)"
    by (simp add: airPollutionRemovedGrams64_def POLLUTION_REMOVAL_GRAMS_PER_M2_LEAF_AREA_def)
next
  assume range: "1 / 2 ^ 1022 \<le> leafArea \<and> leafArea \<le> 2 ^ 1000"
  have "(0 :: real) < 1 / 2 ^ 1022"
    by simp
  with range have nonneg: "0 \<le> 180 * leafArea / 2 ^ 52"
    by simp
  show "\<bar>stormwaterInterceptedLiters64 dbh leafArea
        - 120 * airPollutionRemovedGrams64 dbh leafArea\<bar>
      \<le> 180 * leafArea / 2 ^ 52"
  proof (cases "dbh \<le> 0")
    case True
    with nonneg show ?thesis
      by (simp add: stormwaterInterceptedLiters64_def airPollutionRemovedGrams64_def)
  next
    case False
    have "\<bar>binary64 (leafArea * 180) - 120 * binary64 (leafArea * 1.5)\<bar>
        \<le> 180 * leafArea / 2 ^ 52"
      using range by (intro rounded_products_close) simp
    with False show ?thesis
      by (simp add: stormwaterInterceptedLiters64_def airPollutionRemovedGrams64_def
          RAINFALL_INTERCEPTION_LITERS_PER_M2_LEAF_AREA_def
          POLLUTION_REMOVAL_GRAMS_PER_M2_LEAF_AREA_def)
  qed
qed

theorem C10_stormwater_120_pollution_up_to_rounding_witness:
  "(0 :: real) \<le> 0
   \<and> stormwaterInterceptedLiters (calculateEcosystemServices 0 Far) = 0
   \<and> airPollutionRemovedGrams (calculateEcosystemServices 0 Far) = 0
   \<and> stormwaterInterceptedLiters64 0 leafArea_at_dbh_1 = 0
   \<and> airPollutionRemovedGrams64 0 leafArea_at_dbh_1 = 0
   \<and> (0 :: real) < 1
   \<and> stormwaterInterceptedLiters (calculateEcosystemServices 1 Far) = exp (- 2.2) * 180
   \<and> airPollutionRemovedGrams (calculateEcosystemServices 1 Far) = exp (- 2.2) * 1.5
   \<and> stormwaterInterceptedLiters64 1 leafArea_at_dbh_1 = binary64 (leafArea_at_dbh_1 * 180)
   \<and> airPollutionRemovedGrams64 1 leafArea_at_dbh_1 = binary64 (leafArea_at_dbh_1 * 1.5)
   \<and> 1 / 2 ^ 1022 \<le> leafArea_at_dbh_1 \<and> leafArea_at_dbh_1 \<le> 2 ^ 1000
   \<and> \<bar>stormwaterInterceptedLiters64 1 leafArea_at_dbh_1
        - 120 * airPollutionRemovedGrams64 1 leafArea_at_dbh_1\<bar>
       \<le> 180 * leafArea_at_dbh_1 / 2 ^ 52"
proof -
  have range: "1 / 2 ^ 1022 \<le> leafArea_at_dbh_1 \<and> leafArea_at_dbh_1 \<le> 2 ^ 1000"
    by (simp add: leafArea_at_dbh_1_def)
  have d: "(0 :: real) \<le> 0" and p: "(0 :: real) < 1"
    by simp_all
  have e: "exp (- 2.2 + 1.8 * ln 1) = exp (- 2.2 :: real)"
    by simp
  note at_0 = C10_stormwater_120_pollution_up_to_rounding
    [where dbh = 0 and p = Far and leafArea = leafArea_at_dbh_1]
  note at_1 = C10_stormwater_120_pollution_up_to_rounding
    [where dbh = 1 and p = Far and leafArea = leafArea_at_dbh_1]
  from at_0 d have zero:
    "stormwaterInterceptedLiters (calculateEcosystemServices 0 Far) = 0
     \<and> airPollutionRemovedGrams (calculateEcosystemServices 0 Far) = 0
     \<and> stormwaterInterceptedLiters64 0 leafArea_at_dbh_1 = 0
     \<and> airPollutionRemovedGrams64 0 leafArea_at_dbh_1 = 0"
    by blast
  from at_1 p have one:
    "stormwaterInterceptedLiters (calculateEcosystemServices 1 Far) =
       exp (- 2.2 + 1.8 * ln 1) * 180
     \<and> airPollutionRemovedGrams (calculateEcosystemServices 1 Far) =
       exp (- 2.2 + 1.8 * ln 1) * 1.5
     \<and> stormwaterInterceptedLiters64 1 leafArea_at_dbh_1 = binary64 (leafArea_at_dbh_1 * 180)
     \<and> airPollutionRemovedGrams64 1 leafArea_at_dbh_1 = binary64 (leafArea_at_dbh_1 * 1.5)"
    by blast
  from at_1 range have close:
    "\<bar>stormwaterInterceptedLiters64 1 leafArea_at_dbh_1
       - 120 * airPollutionRemovedGrams64 1 leafArea_at_dbh_1\<bar>
     \<le> 180 * leafArea_at_dbh_1 / 2 ^ 52"
    by blast
  from d p zero one [unfolded e] close range show ?thesis
    by blast
qed

section \<open>The record assembler\<close>

lemma session_tree_ids:
  "map tree_id (trees (session calls st)) = rev (map fst calls) @ map tree_id (trees st)"
proof (induction calls arbitrary: st)
  case Nil
  show ?case by simp
next
  case (Cons call calls)
  obtain now m where call: "call = (now, m)"
    by (cases call)
  have "map tree_id (trees (handleAddTree now m st)) = now # map tree_id (trees st)"
    by (simp add: handleAddTree_trees)
  with Cons.IH [of "handleAddTree now m st"] show ?case
    by (simp add: call)
qed

lemma session_added_ids:
  "map tree_id (take (length calls) (trees (session calls st))) = rev (map fst calls)"
proof -
  have "take (length calls) (map tree_id (trees (session calls st))) = rev (map fst calls)"
    by (simp add: session_tree_ids)
  then show ?thesis
    by (simp add: take_map)
qed

text \<open>
  Claim C5, as stated: the identifiers of the records added in one session are pairwise
  distinct. It fails when the clock gives the same reading at two calls.
\<close>

theorem C5_same_clock_reading_counterexample:
  "\<not> distinct (map tree_id (trees
       (session [(1700000000000, sample_measurement), (1700000000000, sample_measurement)]
          \<lparr>trees = [], view = View_form\<rparr>)))"
  by (simp add: handleAddTree_trees)

text \<open>
  Claim C5, amended. The identifier of each added record is the clock reading at its
  call (the newest record first), so the identifiers of the records added in a session
  are pairwise distinct whenever the clock readings at the calls are.
\<close>

theorem C5_ids_are_the_clock_readings:
  "map tree_id (take (length calls) (trees (session calls st))) = rev (map fst calls)
   \<and> (distinct (map fst calls) \<longrightarrow>
        distinct (map tree_id (take (length calls) (trees (session calls st)))))"
  by (simp only: session_added_ids distinct_rev simp_thms)

theorem C5_ids_are_the_clock_readings_witness:
  "map tree_id (take 2 (trees
       (session [(1700000000000, sample_measurement), (1700000000001, sample_measurement)]
          \<lparr>trees = [], view = View_form\<rparr>))) = [1700000000001, 1700000000000]
   \<and> distinct [1700000000000 :: int, 1700000000001]
   \<and> distinct (map tree_id (take 2 (trees
       (session [(1700000000000, sample_measurement), (1700000000001, sample_measurement)]
          \<lparr>trees = [], view = View_form\<rparr>))))"
  using C5_ids_are_the_clock_readings
    [of "[(1700000000000, sample_measurement), (1700000000001, sample_measurement)]"
        "\<lparr>trees = [], view = View_form\<rparr>"]
  by (simp add: handleAddTree_trees)

section \<open>The portfolio aggregator\<close>

text \<open>
  Claim C9. For the empty collection every total of the summary is 0 and each of the
  three breakdown sequences is empty; the definition of \<open>stats\<close> returns this record in
  its first branch, before any fold.
\<close>

theorem C9_empty_collection:
  "stats [] =
     \<lparr>totalTrees = 0, totalCarbon = 0, totalStormwater = 0, totalPollution = 0,
      totalMonetaryValue = 0, speciesData = [], monetaryBreakdown = [],
      carbonByConditionData = []\<rparr>"
  by (simp add: stats_def)

lemma parseFloat_toFixed_zero: "parseFloat_toFixed 0 f = 0"
  by (simp add: parseFloat_toFixed_def)

text \<open>
  Below \<open>10\<^sup>2\<^sup>1\<close> the value read back from \<open>toFixed(2)\<close> is within half a hundredth of
  the number.
\<close>

lemma parseFloat_toFixed_near:
  assumes "\<bar>x\<bar> < 10 ^ 21"
  shows "\<bar>parseFloat_toFixed x 2 - x\<bar> \<le> 1 / 200"
proof -
  define n where "n = \<lfloor>\<bar>x\<bar> * 100 + 1 / 2\<rfloor>"
  have lo: "of_int n \<le> \<bar>x\<bar> * 100 + 1 / 2" and hi: "\<bar>x\<bar> * 100 + 1 / 2 < of_int n + 1"
    unfolding n_def by linarith+
  have pf: "parseFloat_toFixed x 2 = sgn x * (of_int n / 100)"
    using assms by (simp add: parseFloat_toFixed_def n_def)
  have "\<bar>sgn x * (of_int n / 100) - x\<bar> = \<bar>sgn x * (of_int n / 100 - \<bar>x\<bar>)\<bar>"
    by (simp add: algebra_simps sgn_real_def abs_if) 
  also have "\<dots> \<le> \<bar>of_int n / 100 - \<bar>x\<bar>\<bar>"
    by (simp add: abs_mult sgn_real_def)
  also have "\<dots> \<le> 1 / 200"
    using lo hi by linarith
  finally show ?thesis
    by (simp add: pf)
qed

lemma addCarbon_entry:
  "entry_or_zero (addCarbon acc t) c =
     entry_or_zero acc c + (if condition t = c then co2Sequestrated (carbon_metrics t) else 0)"
  by (simp add: addCarbon_def entry_or_zero_def Let_def)

lemma foldl_addCarbon_entry:
  "entry_or_zero (foldl addCarbon acc ts) c = entry_or_zero acc c + co2_of_condition c ts"
proof (induction ts arbitrary: acc)
  case Nil
  show ?case by (simp add: co2_of_condition_def)
next
  case (Cons t ts)
  have "co2_of_condition c (t # ts) =
      (if condition t = c then co2Sequestrated (carbon_metrics t) else 0) + co2_of_condition c ts"
    by (simp add: co2_of_condition_def)
  then show ?case
    by (simp add: Cons.IH addCarbon_entry)
qed

lemma carbonByCondition_sum: "entry_or_zero (carbonByCondition ts) c = co2_of_condition c ts"
  using foldl_addCarbon_entry [of Map.empty ts c]
  by (simp add: carbonByCondition_def entry_or_zero_def)

lemma carbonByCondition_entry:
  "(case carbonByCondition ts c of None \<Rightarrow> 0
    | Some v \<Rightarrow> if v = 0 then 0 else parseFloat_toFixed v 2) =
   parseFloat_toFixed (co2_of_condition c ts) 2"
proof (cases "carbonByCondition ts c")
  case None
  with carbonByCondition_sum [of ts c] have "co2_of_condition c ts = 0"
    by (simp add: entry_or_zero_def)
  with None show ?thesis
    by (simp add: parseFloat_toFixed_zero)
next
  case (Some v)
  with carbonByCondition_sum [of ts c] have "co2_of_condition c ts = v"
    by (simp add: entry_or_zero_def)
  with Some show ?thesis
    by (simp add: parseFloat_toFixed_zero)
qed

lemma carbonByConditionData_eq:
  "carbonByConditionData (stats ts) =
     filter (\<lambda>item. snd item > 0)
       (map (\<lambda>c. (c, parseFloat_toFixed (co2_of_condition c ts) 2)) [HEALTHY, DAMAGED, DEAD])"
proof (cases "ts = []")
  case True
  then show ?thesis
    by (simp add: stats_def co2_of_condition_def parseFloat_toFixed_zero)
next
  case False
  then have "carbonByConditionData (stats ts) = filter (\<lambda>item. snd item > 0)
                (map (\<lambda>condition.
                        (condition,
                         (case carbonByCondition ts condition of
                            None \<Rightarrow> 0
                          | Some v \<Rightarrow> if v = 0 then 0 else parseFloat_toFixed v 2)))
                   conditionOrder)"
    by (simp add: stats_def Let_def)
  then show ?thesis
    by (simp only: carbonByCondition_entry conditionOrder_def)
qed

text \<open>
  Claim C4, amended. For every collection, \<open>carbonByConditionData\<close> has one entry per
  condition whose summed \<open>co2Sequestrated\<close>, rounded to two decimals by
  \<open>parseFloat(sum.toFixed(2))\<close>, is positive; the entry's \<open>co2\<close> is that rounded sum; the
  entries come in the order Healthy, Damaged, Dead. A single tree with
  \<open>co2Sequestrated = 12.34\<close> and condition Healthy yields exactly the entry
  \<open>(Healthy, 12.34)\<close>.
\<close>

theorem C4_carbon_by_condition_rounded:
  "carbonByConditionData (stats ts) =
     filter (\<lambda>item. snd item > 0)
       (map (\<lambda>c. (c, parseFloat_toFixed (co2_of_condition c ts) 2)) [HEALTHY, DAMAGED, DEAD])
   \<and> (co2Sequestrated (carbon_metrics t) = 12.34 \<and> condition t = HEALTHY \<longrightarrow>
        carbonByConditionData (stats [t]) = [(HEALTHY, 12.34)])"
proof (intro conjI impI)
  show "carbonByConditionData (stats ts) =
     filter (\<lambda>item. snd item > 0)
       (map (\<lambda>c. (c, parseFloat_toFixed (co2_of_condition c ts) 2)) [HEALTHY, DAMAGED, DEAD])"
    by (rule carbonByConditionData_eq)
  assume t: "co2Sequestrated (carbon_metrics t) = 12.34 \<and> condition t = HEALTHY"
  have r: "parseFloat_toFixed 12.34 2 = 12.34"
    by (simp add: parseFloat_toFixed_def)
  from t have h: "co2_of_condition HEALTHY [t] = 12.34"
    and d: "co2_of_condition DAMAGED [t] = 0" and e: "co2_of_condition DEAD [t] = 0"
    by (simp_all add: co2_of_condition_def)
  have "carbonByConditionData (stats [t]) =
      filter (\<lambda>item. snd item > 0)
        (map (\<lambda>c. (c, parseFloat_toFixed (co2_of_condition c [t]) 2)) [HEALTHY, DAMAGED, DEAD])"
    by (rule carbonByConditionData_eq)
  also have "\<dots> = filter (\<lambda>item. snd item > 0) [(HEALTHY, 12.34), (DAMAGED, 0), (DEAD, 0)]"
    by (simp only: list.map h d e r parseFloat_toFixed_zero)
  also have "\<dots> = [(HEALTHY, 12.34)]"
    by simp
  finally show "carbonByConditionData (stats [t]) = [(HEALTHY, 12.34)]" .
qed

theorem C4_carbon_by_condition_rounded_witness:
  "carbonByConditionData (stats [sample_tree ''Jati'' HEALTHY 0.126, sample_tree ''Pinus'' DEAD 2,
       sample_tree ''Jati'' HEALTHY 1, sample_tree ''Mahoni'' DAMAGED 0.004]) =
     [(HEALTHY, 1.13), (DEAD, 2)]
   \<and> co2Sequestrated (carbon_metrics (sample_tree ''Jati'' HEALTHY 12.34)) = 12.34
   \<and> condition (sample_tree ''Jati'' HEALTHY 12.34) = HEALTHY
   \<and> carbonByConditionData (stats [sample_tree ''Jati'' HEALTHY 12.34]) = [(HEALTHY, 12.34)]"
  using C4_carbon_by_condition_rounded [of "[sample_tree ''Jati'' HEALTHY 0.126, sample_tree ''Pinus'' DEAD 2,
       sample_tree ''Jati'' HEALTHY 1, sample_tree ''Mahoni'' DAMAGED 0.004]" "sample_tree ''Jati'' HEALTHY 12.34"]
  by (simp add: sample_tree_def co2_of_condition_def parseFloat_toFixed_def)

text \<open>
  Claim C4, as stated: each entry's \<open>co2\<close> is the sum of \<open>co2Sequestrated\<close> over the trees
  of the condition, and every condition with a positive sum has an entry. A single
  healthy tree with 0.126 gets the entry 0.13, and one with 0.004 gets no entry.
\<close>

theorem C4_rounding_counterexample:
  "carbonByConditionData (stats [sample_tree ''Jati'' HEALTHY 0.126]) \<noteq>
     spec_carbonByConditionData [sample_tree ''Jati'' HEALTHY 0.126]
   \<and> carbonByConditionData (stats [sample_tree ''Jati'' HEALTHY 0.126]) = [(HEALTHY, 0.13)]
   \<and> spec_carbonByConditionData [sample_tree ''Jati'' HEALTHY 0.126] = [(HEALTHY, 0.126)]
   \<and> carbonByConditionData (stats [sample_tree ''Jati'' HEALTHY 0.004]) = []
   \<and> spec_carbonByConditionData [sample_tree ''Jati'' HEALTHY 0.004] = [(HEALTHY, 0.004)]"
  by (simp add: carbonByConditionData_eq spec_carbonByConditionData_def sample_tree_def
      co2_of_condition_def parseFloat_toFixed_def)

text \<open>
  The species count. On species strings that name no property of \<open>Object.prototype\<close>
  the counter object holds one number per distinct species, its number of occurrences.
\<close>

lemma map_of_js_put: "map_of (js_put k v ps) = (map_of ps)(k \<mapsto> v)"
  by (induction ps) auto

lemma keys_js_put_old: "k \<in> fst ` set ps \<Longrightarrow> map fst (js_put k v ps) = map fst ps"
  by (induction ps) force+

lemma keys_js_put_new: "k \<notin> fst ` set ps \<Longrightarrow> map fst (js_put k v ps) = map fst ps @ [k]"
  by (induction ps) auto

lemma key_set_js_put: "fst ` set (js_put k v ps) = insert k (fst ` set ps)"
  by (induction k v ps rule: js_put.induct) (simp_all add: insert_commute)

lemma distinct_js_put: "distinct (map fst ps) \<Longrightarrow> distinct (map fst (js_put k v ps))"
  by (cases "k \<in> fst ` set ps") (simp_all add: keys_js_put_old keys_js_put_new)

lemma all_counts_js_put: "all_counts ps \<Longrightarrow> all_counts (js_put k (Num n) ps)"
  by (induction ps) (auto simp: all_counts_def count_of_def)

lemma all_counts_lookup:
  "all_counts ps \<Longrightarrow> map_of ps k = Some v \<Longrightarrow> v = Num (count_of v)"
  by (auto simp: all_counts_def list_all_iff dest!: map_of_SomeD)

lemma countSpecies_ordinary:
  assumes "all_counts acc" and "ordinary_name (species t)"
  shows "countSpecies acc t = js_put (species t) (Num (entry_count acc (species t) + 1)) acc"
proof (cases "map_of acc (species t)")
  case None
  with assms(2) have "js_get acc (species t) = Undefined"
    by (simp add: js_get_def ordinary_name_def)
  with None assms(2) show ?thesis
    by (simp add: countSpecies_def js_set_def js_or_zero_def js_plus_one_def entry_count_def
        ordinary_name_def)
next
  case (Some v)
  with assms(1) have "v = Num (count_of v)"
    by (rule all_counts_lookup)
  then obtain n where v: "v = Num n"
    by blast
  from Some have "js_get acc (species t) = Num n"
    by (simp add: js_get_def v)
  then have "js_plus_one (js_or_zero (js_get acc (species t))) = Num (n + 1)"
    by (cases n) (simp_all add: js_or_zero_def js_plus_one_def)
  with Some assms(2) show ?thesis
    by (simp add: countSpecies_def js_set_def entry_count_def ordinary_name_def v count_of_def)
qed

lemma entry_count_js_put:
  "entry_count (js_put k (Num n) ps) k' = (if k' = k then n else entry_count ps k')"
  by (simp add: entry_count_def map_of_js_put count_of_def)

lemma foldl_countSpecies:
  assumes "\<forall>t \<in> set ts. ordinary_name (species t)" and "all_counts acc"
    and "distinct (map fst acc)"
  shows "all_counts (foldl countSpecies acc ts)
    \<and> distinct (map fst (foldl countSpecies acc ts))
    \<and> fst ` set (foldl countSpecies acc ts) = fst ` set acc \<union> species ` set ts
    \<and> (\<forall>k. entry_count (foldl countSpecies acc ts) k =
          entry_count acc k + count_list (map species ts) k)"
  using assms
proof (induction ts arbitrary: acc)
  case Nil
  then show ?case by simp
next
  case (Cons t ts)
  let ?acc = "js_put (species t) (Num (entry_count acc (species t) + 1)) acc"
  from Cons.prems have step: "countSpecies acc t = ?acc"
    by (simp add: countSpecies_ordinary)
  have a: "all_counts ?acc"
    using Cons.prems(2) by (rule all_counts_js_put)
  have d: "distinct (map fst ?acc)"
    using Cons.prems(3) by (rule distinct_js_put)
  have o: "\<forall>t \<in> set ts. ordinary_name (species t)"
    using Cons.prems(1) by simp
  have k: "fst ` set ?acc = insert (species t) (fst ` set acc)"
    by (rule key_set_js_put)
  note IH = Cons.IH [OF o a d]
  have "all_counts (foldl countSpecies acc (t # ts))"
    using IH by (simp add: step)
  moreover have "distinct (map fst (foldl countSpecies acc (t # ts)))"
    using IH by (simp add: step)
  moreover have "fst ` set (foldl countSpecies acc (t # ts)) =
      fst ` set acc \<union> species ` set (t # ts)"
    using IH by (simp add: step key_set_js_put)
  moreover have "entry_count (foldl countSpecies acc (t # ts)) k' =
      entry_count acc k' + count_list (map species (t # ts)) k'" for k'
    using IH by (simp add: step entry_count_js_put)
  ultimately show ?case
    by blast
qed


lemma mset_Object_entries: "mset (Object_entries obj) = mset obj"
  by (simp add: Object_entries_def)

lemma mset_insert_sorted: "mset (insert_sorted comparefn x ys) = add_mset x (mset ys)"
  by (induction ys) simp_all

lemma mset_Array_sort: "mset (Array_sort comparefn xs) = mset xs"
  unfolding Array_sort_def by (induction xs) (simp_all add: mset_insert_sorted)

lemma sort_compare_counts:
  "sort_compare (\<lambda>a b. js_minus (snd b) (snd a)) (k, Num m) (k', Num n) \<le> 0 \<longleftrightarrow> n \<le> m"
  by (simp add: sort_compare_def js_minus_def)

lemma descending_insert_sorted:
  assumes "all_counts (x # ys)" and "descending ys"
  shows "descending (insert_sorted (\<lambda>a b. js_minus (snd b) (snd a)) x ys)"
  using assms
proof (induction ys)
  case Nil
  show ?case by (simp add: descending_def)
next
  case (Cons y ys)
  obtain k m where x: "x = (k, Num m)"
    using Cons.prems(1) by (cases x) (auto simp: all_counts_def)
  obtain k' n where y: "y = (k', Num n)"
    using Cons.prems(1) by (cases y) (auto simp: all_counts_def)
  show ?case
  proof (cases "n \<le> m")
    case True
    then have "insert_sorted (\<lambda>a b. js_minus (snd b) (snd a)) x (y # ys) = x # y # ys"
      by (simp add: x y sort_compare_counts)
    moreover have "descending (x # y # ys)"
      using Cons.prems(2) True by (auto simp: descending_def x y count_of_def)
    ultimately show ?thesis by simp
  next
    case False
    then have ins: "insert_sorted (\<lambda>a b. js_minus (snd b) (snd a)) x (y # ys) =
        y # insert_sorted (\<lambda>a b. js_minus (snd b) (snd a)) x ys"
      by (simp add: x y sort_compare_counts)
    have "all_counts (x # ys)" and "descending ys"
      using Cons.prems by (simp_all add: all_counts_def descending_def)
    then have IH: "descending (insert_sorted (\<lambda>a b. js_minus (snd b) (snd a)) x ys)"
      by (rule Cons.IH)
    have "set (insert_sorted (\<lambda>a b. js_minus (snd b) (snd a)) x ys) = insert x (set ys)"
      using mset_insert_sorted [of "\<lambda>a b. js_minus (snd b) (snd a)" x ys]
      by (metis set_mset_add_mset_insert set_mset_mset)
    with IH Cons.prems(2) False show ?thesis
      by (auto simp: descending_def x y count_of_def sort_compare_counts)
  qed
qed

lemma descending_Array_sort:
  "all_counts xs \<Longrightarrow> descending (Array_sort (\<lambda>a b. js_minus (snd b) (snd a)) xs)"
proof (induction xs)
  case Nil
  show ?case by (simp add: Array_sort_def descending_def)
next
  case (Cons x xs)
  let ?s = "Array_sort (\<lambda>a b. js_minus (snd b) (snd a)) xs"
  from Cons have d: "descending ?s"
    by (simp add: all_counts_def)
  have "set ?s = set xs"
    using mset_Array_sort [of "\<lambda>a b. js_minus (snd b) (snd a)" xs] by (metis set_mset_mset)
  with Cons.prems have "all_counts (x # ?s)"
    by (simp add: all_counts_def list_all_iff)
  then have "descending (insert_sorted (\<lambda>a b. js_minus (snd b) (snd a)) x ?s)"
    using d by (rule descending_insert_sorted)
  then show ?case
    by (simp add: Array_sort_def)
qed

lemma map_entries_id: "map (\<lambda>(name, value). (name, value)) xs = xs"
  by (induction xs) auto

lemma speciesData_eq:
  "ts \<noteq> [] \<Longrightarrow> speciesData (stats ts) =
     Array_sort (\<lambda>a b. js_minus (snd b) (snd a)) (Object_entries (speciesCount ts))"
  by (simp add: stats_def Let_def map_entries_id)

lemma speciesCount_ordinary:
  assumes "\<forall>t \<in> set ts. ordinary_name (species t)"
  shows "all_counts (speciesCount ts)" and "distinct (map fst (speciesCount ts))"
    and "set (speciesCount ts) =
      (\<lambda>s. (s, Num (count_list (map species ts) s))) ` species ` set ts"
proof -
  have e: "all_counts []" "distinct (map fst ([] :: js_object))"
    by (simp_all add: all_counts_def)
  note f = foldl_countSpecies [OF assms e, folded speciesCount_def]
  from f show a: "all_counts (speciesCount ts)" and d: "distinct (map fst (speciesCount ts))"
    by simp_all
  from f have keys: "fst ` set (speciesCount ts) = species ` set ts"
    by simp
  from f have cnt: "entry_count (speciesCount ts) k = count_list (map species ts) k" for k
    by (simp add: entry_count_def)
  have val: "v = Num (count_list (map species ts) k)" if "(k, v) \<in> set (speciesCount ts)" for k v
  proof -
    from that d have m: "map_of (speciesCount ts) k = Some v"
      by simp
    with a have "v = Num (count_of v)"
      by (rule all_counts_lookup)
    moreover from m cnt [of k] have "count_of v = count_list (map species ts) k"
      by (simp add: entry_count_def)
    ultimately show ?thesis by simp
  qed
  show "set (speciesCount ts) =
      (\<lambda>s. (s, Num (count_list (map species ts) s))) ` species ` set ts"
  proof (intro set_eqI iffI)
    fix p assume p: "p \<in> set (speciesCount ts)"
    obtain k v where kv: "p = (k, v)" by (cases p)
    from p kv have "k \<in> species ` set ts"
      using keys by force
    moreover from p kv have "v = Num (count_list (map species ts) k)"
      by (simp add: val)
    ultimately show "p \<in> (\<lambda>s. (s, Num (count_list (map species ts) s))) ` species ` set ts"
      using kv by blast
  next
    fix p assume "p \<in> (\<lambda>s. (s, Num (count_list (map species ts) s))) ` species ` set ts"
    then obtain s where s: "s \<in> species ` set ts" and p: "p = (s, Num (count_list (map species ts) s))"
      by blast
    from s keys obtain v where v: "(s, v) \<in> set (speciesCount ts)"
      by force
    then have "v = Num (count_list (map species ts) s)"
      by (rule val)
    with v p show "p \<in> set (speciesCount ts)"
      by simp
  qed
qed

lemma speciesData_ordinary_names:
  assumes "\<forall>t \<in> set ts. ordinary_name (species t)"
  shows "distinct (map fst (speciesData (stats ts)))"
    and "set (speciesData (stats ts)) =
      (\<lambda>s. (s, Num (count_list (map species ts) s))) ` species ` set ts"
    and "sorted_wrt (\<lambda>a b. count_of (snd b) \<le> count_of (snd a)) (speciesData (stats ts))"
proof -
  let ?c = "speciesCount ts"
  let ?r = "speciesData (stats ts)"
  have m: "mset ?r = mset ?c"
  proof (cases "ts = []")
    case True
    then show ?thesis by (simp add: stats_def speciesCount_def)
  next
    case False
    then show ?thesis
      by (simp add: speciesData_eq mset_Array_sort mset_Object_entries)
  qed
  then have "mset (map fst ?r) = mset (map fst ?c)"
    by (metis mset_map)
  then show "distinct (map fst ?r)"
    using speciesCount_ordinary(2) [OF assms] by (metis mset_eq_imp_distinct_iff)
  from m have "set ?r = set ?c"
    by (rule mset_eq_setD)
  then show "set ?r = (\<lambda>s. (s, Num (count_list (map species ts) s))) ` species ` set ts"
    by (simp add: speciesCount_ordinary(3) [OF assms])
  show "sorted_wrt (\<lambda>a b. count_of (snd b) \<le> count_of (snd a)) ?r"
  proof (cases "ts = []")
    case True
    then show ?thesis by (simp add: stats_def)
  next
    case False
    have "set (Object_entries ?c) = set ?c"
      using mset_Object_entries [of ?c] by (rule mset_eq_setD)
    with speciesCount_ordinary(1) [OF assms] have "all_counts (Object_entries ?c)"
      by (simp add: all_counts_def list_all_iff)
    then have "descending (Array_sort (\<lambda>a b. js_minus (snd b) (snd a)) (Object_entries ?c))"
      by (rule descending_Array_sort)
    with False show ?thesis
      by (simp add: speciesData_eq descending_def)
  qed
qed

text \<open>
  For such collections \<open>speciesData\<close> has one entry per distinct species (compared as
  strings, so case-sensitively), the entry's value is the number of trees of the species,
  and the entries come in descending order of the count.
\<close>

lemma speciesData_counts_descending:
  assumes "\<forall>t \<in> set ts. ordinary_name (species t)"
  shows "distinct (map fst (speciesData (stats ts)))
    \<and> set (speciesData (stats ts)) =
        (\<lambda>s. (s, Num (count_list (map species ts) s))) ` species ` set ts
    \<and> descending (speciesData (stats ts))"
  using speciesData_ordinary_names [OF assms] by (simp add: descending_def)

lemmas species_eval =
  stats_def sample_tree_def speciesCount_def countSpecies_def js_get_def js_set_def
  js_or_zero_def js_plus_one_def Object_prototype_methods_def Object_entries_def
  is_array_index_def is_digit_def decimal_value_def Array_sort_def js_minus_def
  sort_compare_def

lemma speciesData_Jati_Pinus_Jati:
  "speciesData (stats [sample_tree ''Jati'' HEALTHY 1, sample_tree ''Pinus'' DAMAGED 2,
       sample_tree ''Jati'' DEAD 3]) = [(''Jati'', Num 2), (''Pinus'', Num 1)]"
  by (simp add: species_eval)

lemma speciesData_case_sensitive:
  "speciesData (stats [sample_tree ''jati'' HEALTHY 1, sample_tree ''Jati'' HEALTHY 1,
       sample_tree ''Jati'' HEALTHY 1]) = [(''Jati'', Num 2), (''jati'', Num 1)]"
  by (simp add: species_eval)

lemma speciesData_array_indices_first:
  "speciesData (stats [sample_tree ''Jati'' HEALTHY 1, sample_tree ''7'' HEALTHY 1,
       sample_tree ''10'' HEALTHY 1, sample_tree ''9'' HEALTHY 1,
       sample_tree ''07'' HEALTHY 1]) =
     [(''7'', Num 1), (''9'', Num 1), (''10'', Num 1), (''Jati'', Num 1), (''07'', Num 1)]"
  by (simp add: species_eval)

text \<open>
  Claim C8: \<open>speciesData\<close> maps each distinct species string to its occurrence count.
  The counter is a plain object, so a species string that names a property of
  \<open>Object.prototype\<close> reads the inherited property instead of \<open>undefined\<close>: for
  \<open>constructor\<close> the value becomes a string, not the count 1, and \<open>__proto__\<close> gets no
  entry at all.
\<close>

theorem C8_inherited_property_names:
  "speciesData (stats [sample_tree ''constructor'' HEALTHY 1]) = [(''constructor'', Str)]
   \<and> speciesData (stats [sample_tree ''Jati'' HEALTHY 1, sample_tree ''toString'' HEALTHY 1,
         sample_tree ''toString'' HEALTHY 1]) = [(''Jati'', Num 1), (''toString'', Str)]
   \<and> speciesData (stats [sample_tree ''__proto__'' HEALTHY 1]) = []"
  by (simp add: species_eval)

end
